theory Spec2Isabelle
  imports Complex_Main
begin

section \<open>JavaScript values\<close>

text \<open>
  \<^verbatim>\<open>server.js\<close> receives its request bodies from \<^verbatim>\<open>JSON.parse\<close> and never checks a
  type, so every field of a body is an arbitrary JSON value (or \<^verbatim>\<open>undefined\<close> when the key
  is absent). A number is an IEEE double: a finite value, an infinity (\<^verbatim>\<open>JSON.parse("1e999")\<close>)
  or \<^verbatim>\<open>NaN\<close> (the result of converting a non-numeric value). Finite values are modelled by
  the rationals, which contain every finite double; negative zero is identified with zero
  (both are falsy, and nothing below tells them apart). The coin counters only ever hold
  \<^verbatim>\<open>NaN\<close> or sums of integers between 0 and 50, which doubles add without rounding as long
  as the total stays below \<open>2 ^ 53\<close>; the model adds them exactly.

  Strings are lists of characters. An object is the list of its own properties in
  property order, with distinct keys, as \<^verbatim>\<open>JSON.parse\<close> builds it.
\<close>

datatype jsnum = Fin rat | PInf | NInf | NaN

datatype jsval =
    JUndefined
  | JNull
  | JBool bool
  | JNum jsnum
  | JStr string
  | JArr "jsval list"
  | JObj "(string \<times> jsval) list"

text \<open>\<^verbatim>\<open>ToBoolean\<close>: what \<^verbatim>\<open>!x\<close> and \<^verbatim>\<open>x || y\<close> test.\<close>

fun truthy :: "jsval \<Rightarrow> bool" where
  "truthy JUndefined = False"
| "truthy JNull = False"
| "truthy (JBool b) = b"
| "truthy (JNum n) = (n \<noteq> Fin 0 \<and> n \<noteq> NaN)"
| "truthy (JStr s) = (s \<noteq> [])"
| "truthy (JArr xs) = True"
| "truthy (JObj kvs) = True"

text \<open>Property access \<^verbatim>\<open>body.k\<close> as the destructuring of \<^verbatim>\<open>handleTap\<close> performs it; on
  \<^verbatim>\<open>null\<close> the destructuring throws, which \<open>handleTap\<close> below treats itself.\<close>

fun get_prop :: "jsval \<Rightarrow> string \<Rightarrow> jsval" where
  "get_prop (JObj kvs) k = (case map_of kvs k of None \<Rightarrow> JUndefined | Some v \<Rightarrow> v)"
| "get_prop v k = JUndefined"

subsection \<open>Arithmetic on numbers\<close>

fun js_add :: "jsnum \<Rightarrow> jsnum \<Rightarrow> jsnum" where
  "js_add NaN b = NaN"
| "js_add a NaN = NaN"
| "js_add (Fin a) (Fin b) = Fin (a + b)"
| "js_add PInf NInf = NaN"
| "js_add NInf PInf = NaN"
| "js_add PInf b = PInf"
| "js_add a PInf = PInf"
| "js_add NInf b = NInf"
| "js_add a NInf = NInf"

fun js_neg :: "jsnum \<Rightarrow> jsnum" where
  "js_neg (Fin a) = Fin (- a)"
| "js_neg PInf = NInf"
| "js_neg NInf = PInf"
| "js_neg NaN = NaN"

definition js_sub :: "jsnum \<Rightarrow> jsnum \<Rightarrow> jsnum" where
  "js_sub a b = js_add a (js_neg b)"

text \<open>\<^verbatim>\<open>a >= b\<close>: false as soon as one side is \<^verbatim>\<open>NaN\<close>.\<close>

fun js_ge :: "jsnum \<Rightarrow> jsnum \<Rightarrow> bool" where
  "js_ge NaN b = False"
| "js_ge a NaN = False"
| "js_ge PInf b = True"
| "js_ge a NInf = True"
| "js_ge (Fin a) (Fin b) = (a \<ge> b)"
| "js_ge NInf b = False"
| "js_ge a PInf = False"

fun Math_floor :: "jsnum \<Rightarrow> jsnum" where
  "Math_floor (Fin q) = Fin (of_int \<lfloor>q\<rfloor>)"
| "Math_floor n = n"

fun Math_max :: "jsnum \<Rightarrow> jsnum \<Rightarrow> jsnum" where
  "Math_max NaN b = NaN"
| "Math_max a NaN = NaN"
| "Math_max PInf b = PInf"
| "Math_max a PInf = PInf"
| "Math_max NInf b = b"
| "Math_max a NInf = a"
| "Math_max (Fin a) (Fin b) = Fin (max a b)"

fun Math_min :: "jsnum \<Rightarrow> jsnum \<Rightarrow> jsnum" where
  "Math_min NaN b = NaN"
| "Math_min a NaN = NaN"
| "Math_min NInf b = NInf"
| "Math_min a NInf = NInf"
| "Math_min PInf b = b"
| "Math_min a PInf = a"
| "Math_min (Fin a) (Fin b) = Fin (min a b)"

subsection \<open>The platform\<close>

text \<open>
  Library functions of the JavaScript runtime that the server calls and whose results are
  not computed here are parameters of the model: the conversion of a string to a number
  and of a number to a string, \<^verbatim>\<open>String.prototype.localeCompare\<close>, and HMAC-SHA256 (key first,
  then message; both and the digest are byte strings). Every theorem below holds for every
  choice of them.
\<close>

record runtime =
  StringToNumber :: "string \<Rightarrow> jsnum"
  NumberToString :: "jsnum \<Rightarrow> string"
  localeCompare :: "string \<Rightarrow> string \<Rightarrow> int"
  hmac_sha256 :: "string \<Rightarrow> string \<Rightarrow> string"

text \<open>
  \<^verbatim>\<open>ToString\<close>; \<open>None\<close> is a thrown \<^verbatim>\<open>TypeError\<close>. A parsed object inherits
  \<^verbatim>\<open>Object.prototype.toString\<close> unless it has an own property of that name, which (being
  JSON data) is not callable, and then no conversion method is left. An array is joined
  with commas, \<^verbatim>\<open>null\<close> elements giving the empty string.
\<close>

fun ToString :: "runtime \<Rightarrow> jsval \<Rightarrow> string option"
  and join_elems :: "runtime \<Rightarrow> jsval list \<Rightarrow> string option"
  and elem_string :: "runtime \<Rightarrow> jsval \<Rightarrow> string option" where
  "ToString rt JUndefined = Some ''undefined''"
| "ToString rt JNull = Some ''null''"
| "ToString rt (JBool b) = Some (if b then ''true'' else ''false'')"
| "ToString rt (JNum n) = Some (NumberToString rt n)"
| "ToString rt (JStr s) = Some s"
| "ToString rt (JArr xs) = join_elems rt xs"
| "ToString rt (JObj kvs) =
     (if ''toString'' \<in> fst ` set kvs then None else Some ''[object Object]'')"
| "join_elems rt [] = Some []"
| "join_elems rt [x] = elem_string rt x"
| "join_elems rt (x # y # ys) =
     (case elem_string rt x of
        None \<Rightarrow> None
      | Some s \<Rightarrow>
          (case join_elems rt (y # ys) of
             None \<Rightarrow> None
           | Some t \<Rightarrow> Some (s @ '','' @ t)))"
| "elem_string rt JUndefined = Some []"
| "elem_string rt JNull = Some []"
| "elem_string rt (JBool b) = ToString rt (JBool b)"
| "elem_string rt (JNum n) = ToString rt (JNum n)"
| "elem_string rt (JStr s) = ToString rt (JStr s)"
| "elem_string rt (JArr xs) = ToString rt (JArr xs)"
| "elem_string rt (JObj kvs) = ToString rt (JObj kvs)"

text \<open>
  \<^verbatim>\<open>ToNumber\<close>, which \<^verbatim>\<open>Math.floor\<close> applies to its argument. An object without an own
  \<^verbatim>\<open>toString\<close> converts through the string \<^verbatim>\<open>[object Object]\<close>, which is no numeric literal:
  the result is \<^verbatim>\<open>NaN\<close>.
\<close>

fun ToNumber :: "runtime \<Rightarrow> jsval \<Rightarrow> jsnum option" where
  "ToNumber rt JUndefined = Some NaN"
| "ToNumber rt JNull = Some (Fin 0)"
| "ToNumber rt (JBool b) = Some (Fin (if b then 1 else 0))"
| "ToNumber rt (JNum n) = Some n"
| "ToNumber rt (JStr s) = Some (StringToNumber rt s)"
| "ToNumber rt (JArr xs) = map_option (StringToNumber rt) (ToString rt (JArr xs))"
| "ToNumber rt (JObj kvs) = (if ''toString'' \<in> fst ` set kvs then None else Some NaN)"

section \<open>Library objects\<close>

subsection \<open>Map\<close>

text \<open>
  A \<^verbatim>\<open>Map\<close> is the list of its entries in insertion order. Keys are compared by
  \<^verbatim>\<open>SameValueZero\<close>: primitive values by value, arrays and objects by reference. A key that
  arrives in a request body was built by \<^verbatim>\<open>JSON.parse\<close> for that request, so an array or
  object key is a reference no entry of the Map holds: it is never found.
\<close>

type_synonym 'v jsmap = "(jsval \<times> 'v) list"

fun is_reference :: "jsval \<Rightarrow> bool" where
  "is_reference (JArr xs) = True"
| "is_reference (JObj kvs) = True"
| "is_reference v = False"

fun map_index :: "jsval \<Rightarrow> 'v jsmap \<Rightarrow> nat option" where
  "map_index k [] = None"
| "map_index k ((k', v) # m) =
     (if \<not> is_reference k \<and> k' = k then Some 0 else map_option Suc (map_index k m))"

definition map_get :: "jsval \<Rightarrow> 'v jsmap \<Rightarrow> 'v option" where
  "map_get k m = (case map_index k m of None \<Rightarrow> None | Some i \<Rightarrow> Some (snd (m ! i)))"

definition map_set :: "jsval \<Rightarrow> 'v \<Rightarrow> 'v jsmap \<Rightarrow> 'v jsmap" where
  "map_set k v m = (case map_index k m of None \<Rightarrow> m @ [(k, v)] | Some i \<Rightarrow> m[i := (k, v)])"

subsection \<open>Array.prototype.sort\<close>

text \<open>
  \<^verbatim>\<open>sort\<close> with a comparison function is stable; a comparison result of \<^verbatim>\<open>NaN\<close> counts as
  zero. Each element is inserted in front of the already sorted later elements and moves
  right only past those it must follow (comparison result above zero). For a consistent
  comparison function every stable sort gives this list; for the others the language
  leaves the order to the implementation.
\<close>

fun js_positive :: "jsnum \<Rightarrow> bool" where
  "js_positive (Fin q) = (q > 0)"
| "js_positive PInf = True"
| "js_positive n = False"

fun insert_sorted :: "('a \<Rightarrow> 'a \<Rightarrow> jsnum) \<Rightarrow> 'a \<Rightarrow> 'a list \<Rightarrow> 'a list" where
  "insert_sorted cmp x [] = [x]"
| "insert_sorted cmp x (y # ys) =
     (if js_positive (cmp x y) then y # insert_sorted cmp x ys else x # y # ys)"

definition js_sort :: "('a \<Rightarrow> 'a \<Rightarrow> jsnum) \<Rightarrow> 'a list \<Rightarrow> 'a list" where
  "js_sort cmp xs = foldr (insert_sorted cmp) xs []"

subsection \<open>URLSearchParams\<close>

fun split_on :: "char \<Rightarrow> string \<Rightarrow> string list" where
  "split_on c [] = [[]]"
| "split_on c (x # xs) =
     (if x = c then [] # split_on c xs
      else (case split_on c xs of [] \<Rightarrow> [[x]] | w # ws \<Rightarrow> (x # w) # ws))"

definition hex_val :: "char \<Rightarrow> nat option" where
  "hex_val c =
     (let n = of_char c :: nat in
      if 48 \<le> n \<and> n \<le> 57 then Some (n - 48)
      else if 65 \<le> n \<and> n \<le> 70 then Some (n - 55)
      else if 97 \<le> n \<and> n \<le> 102 then Some (n - 87)
      else None)"

fun percent_decode :: "string \<Rightarrow> string" where
  "percent_decode (c # a # b # cs) =
     (case (c = CHR ''%'', hex_val a, hex_val b) of
        (True, Some h, Some l) \<Rightarrow> char_of (16 * h + l) # percent_decode cs
      | _ \<Rightarrow> c # percent_decode (a # b # cs))"
| "percent_decode (c # cs) = c # percent_decode cs"
| "percent_decode [] = []"

definition form_decode :: "string \<Rightarrow> string" where
  "form_decode s = percent_decode (map (\<lambda>c. if c = CHR ''+'' then CHR '' '' else c) s)"

text \<open>
  The \<^verbatim>\<open>application/x-www-form-urlencoded\<close> parser: split at \<^verbatim>\<open>&\<close>, skip empty pieces, split
  each piece at its first \<^verbatim>\<open>=\<close>, decode name and value. Bytes produced by percent-decoding
  are kept as characters (the platform reads them as UTF-8); a name or value of ASCII
  characters, such as \<^verbatim>\<open>hash\<close> and a hexadecimal digest, is decoded exactly.
\<close>

definition parse_pair :: "string \<Rightarrow> string \<times> string" where
  "parse_pair piece =
     (form_decode (takeWhile (\<lambda>c. c \<noteq> CHR ''='') piece),
      form_decode (drop 1 (dropWhile (\<lambda>c. c \<noteq> CHR ''='') piece)))"

definition parse_query :: "string \<Rightarrow> (string \<times> string) list" where
  "parse_query s = map parse_pair (filter (\<lambda>piece. piece \<noteq> []) (split_on CHR ''&'' s))"

definition parse_init :: "string \<Rightarrow> (string \<times> string) list" where
  "parse_init s = parse_query (case s of c # cs \<Rightarrow> (if c = CHR ''?'' then cs else s) | [] \<Rightarrow> s)"

text \<open>
  \<^verbatim>\<open>new URLSearchParams(init)\<close>, returning the list of entries, or \<open>None\<close> when the
  constructor throws. A string (or another primitive, converted to a string) is parsed;
  an array must be a sequence of two-element arrays; an object gives one entry for each
  own property.
\<close>

fun to_pair :: "runtime \<Rightarrow> jsval \<Rightarrow> (string \<times> string) option" where
  "to_pair rt (JArr [a, b]) =
     (case ToString rt a of
        None \<Rightarrow> None
      | Some n \<Rightarrow> (case ToString rt b of None \<Rightarrow> None | Some v \<Rightarrow> Some (n, v)))"
| "to_pair rt v = None"

fun all_some :: "'a option list \<Rightarrow> 'a list option" where
  "all_some [] = Some []"
| "all_some (None # xs) = None"
| "all_some (Some x # xs) = map_option ((#) x) (all_some xs)"

fun URLSearchParams :: "runtime \<Rightarrow> jsval \<Rightarrow> (string \<times> string) list option" where
  "URLSearchParams rt JUndefined = Some []"
| "URLSearchParams rt (JArr xs) = all_some (map (to_pair rt) xs)"
| "URLSearchParams rt (JObj kvs) =
     all_some (map (\<lambda>(k, v). map_option (Pair k) (ToString rt v)) kvs)"
| "URLSearchParams rt v = map_option parse_init (ToString rt v)"

text \<open>\<^verbatim>\<open>params.get(name)\<close> is the value of the first entry of that name, or \<^verbatim>\<open>null\<close>;
  \<^verbatim>\<open>params.delete(name)\<close> removes every entry of that name.\<close>

definition params_get :: "(string \<times> string) list \<Rightarrow> string \<Rightarrow> string option" where
  "params_get params name = map_of params name"

definition params_delete :: "(string \<times> string) list \<Rightarrow> string \<Rightarrow> (string \<times> string) list" where
  "params_delete params name = filter (\<lambda>(k, v). k \<noteq> name) params"

subsection \<open>Hexadecimal digests\<close>

definition hex_digit :: "nat \<Rightarrow> char" where
  "hex_digit n = (if n < 10 then char_of (48 + n) else char_of (87 + n))"

definition hex_encode :: "string \<Rightarrow> string" where
  "hex_encode bytes =
     concat (map (\<lambda>c. [hex_digit (of_char c div 16), hex_digit (of_char c mod 16)]) bytes)"

fun join_lines :: "string list \<Rightarrow> string" where
  "join_lines [] = []"
| "join_lines [l] = l"
| "join_lines (l # m # ls) = l @ [CHR 0x0A] @ join_lines (m # ls)"

section \<open>The server\<close>

subsection \<open>State\<close>

text \<open>
  The two module-level Maps, \<^verbatim>\<open>users\<close> and \<^verbatim>\<open>rateLimits\<close>, are the state. \<^verbatim>\<open>BOT_TOKEN\<close> is
  read once from the environment (the empty string when unset) and is a parameter, as is
  every reading of the clock: \<^verbatim>\<open>Date.now()\<close> is an integer number of milliseconds.
\<close>

record user =
  userId :: jsval
  userName :: jsval
  coins :: jsnum
  totalTaps :: jsnum
  level :: int
  tapPower :: int
  lastTap :: int

record state =
  users :: "user jsmap"
  rateLimits :: "int jsmap"

definition initial :: state where
  "initial = \<lparr>users = [], rateLimits = []\<rparr>"

text \<open>What a handler passes to \<^verbatim>\<open>sendJSON\<close>: the status and the data, or nothing when the
  handler throws (the request callback then answers 400 \<^verbatim>\<open>Invalid JSON\<close>). An entry of the
  leaderboard has the fields \<^verbatim>\<open>userId\<close>, \<^verbatim>\<open>userName\<close>, \<^verbatim>\<open>coins\<close> and \<^verbatim>\<open>level\<close>, here with
  the prefix \<open>entry_\<close> to keep them apart from the fields of a record of the store.\<close>

record entry =
  entry_userId :: jsval
  entry_userName :: jsval
  entry_coins :: jsnum
  entry_level :: int

datatype payload = ErrorBody string | UserBody user | BoardBody "entry list"

datatype outcome = Sent nat payload | Thrown

subsection \<open>Helpers\<close>

text \<open>
  \<open>getUser\<close> returns the live record, which the caller mutates: the model returns the
  position of that record in \<open>users\<close> together with the Map. \<open>map_index\<close> is \<^verbatim>\<open>users.has\<close>
  and \<^verbatim>\<open>users.get\<close> in one; for a key the Map does not have, the record is the entry
  that \<^verbatim>\<open>users.set\<close> just appended.
\<close>

definition new_user :: "jsval \<Rightarrow> int \<Rightarrow> user" where
  "new_user uid now =
     \<lparr>userId = uid, userName = JStr ''Player'', coins = Fin 0, totalTaps = Fin 0,
      level = 1, tapPower = 1, lastTap = now\<rparr>"

definition getUser :: "jsval \<Rightarrow> int \<Rightarrow> user jsmap \<Rightarrow> nat \<times> user jsmap" where
  "getUser uid now us =
     (case map_index uid us of
        Some i \<Rightarrow> (i, us)
      | None \<Rightarrow> (length us, us @ [(uid, new_user uid now)]))"

definition calculateLevel :: "jsnum \<Rightarrow> int" where
  "calculateLevel c =
     (if js_ge c (Fin 100000) then 5
      else if js_ge c (Fin 50000) then 4
      else if js_ge c (Fin 10000) then 3
      else if js_ge c (Fin 1000) then 2
      else 1)"

text \<open>
  \<open>validateInitData\<close>: everything after the first line runs inside \<^verbatim>\<open>try\<close>, and the
  \<^verbatim>\<open>catch\<close> returns false. \<^verbatim>\<open>params.get\<close> gives \<^verbatim>\<open>null\<close> for a missing name, which is not
  strictly equal to any string.
\<close>

definition computedHash :: "runtime \<Rightarrow> string \<Rightarrow> (string \<times> string) list \<Rightarrow> string" where
  "computedHash rt BOT_TOKEN params =
     (let sorted = join_lines (map (\<lambda>(k, v). k @ ''='' @ v)
                     (js_sort (\<lambda>(a, _) (b, _). Fin (of_int (localeCompare rt a b))) params));
          secretKey = hmac_sha256 rt ''WebAppData'' BOT_TOKEN
      in hex_encode (hmac_sha256 rt secretKey sorted))"

definition validateInitData :: "runtime \<Rightarrow> string \<Rightarrow> jsval \<Rightarrow> bool" where
  "validateInitData rt BOT_TOKEN initData =
     (if BOT_TOKEN = [] \<or> \<not> truthy initData then True
      else
        (case URLSearchParams rt initData of
           None \<Rightarrow> False
         | Some params \<Rightarrow>
             (let hash = params_get params ''hash'';
                  params' = params_delete params ''hash''
              in Some (computedHash rt BOT_TOKEN params') = hash)))"

text \<open>\<^verbatim>\<open>rateLimits.get(userId) || 0\<close> is 0 for a missing key (and for a stored 0).\<close>

definition checkRateLimit :: "jsval \<Rightarrow> int \<Rightarrow> int jsmap \<Rightarrow> bool \<times> int jsmap" where
  "checkRateLimit uid now rl =
     (let last = (case map_get uid rl of None \<Rightarrow> 0 | Some t \<Rightarrow> t)
      in if now - last < 500 then (False, rl) else (True, map_set uid now rl))"

subsection \<open>API handlers\<close>

definition handleGetUser :: "jsval \<Rightarrow> int \<Rightarrow> state \<Rightarrow> state \<times> outcome" where
  "handleGetUser uid now st =
     (let (i, us) = getUser uid now (users st)
      in (st\<lparr>users := us\<rparr>, Sent 200 (UserBody (snd (us ! i)))))"

text \<open>The three readings of the clock that one call of \<open>handleTap\<close> can make: in
  \<open>checkRateLimit\<close>, in \<open>getUser\<close> (when it creates the record) and for \<^verbatim>\<open>lastTap\<close>.\<close>

record clock =
  now_limit :: int
  now_create :: int
  now_tap :: int

definition safeCoins :: "jsnum \<Rightarrow> jsnum" where
  "safeCoins n = Math_min (Math_max (Fin 0) (Math_floor n)) (Fin 50)"

definition merge :: "jsval \<Rightarrow> jsnum \<Rightarrow> int \<Rightarrow> user \<Rightarrow> user" where
  "merge name safe now u =
     (let u1 = u\<lparr>userName := (if truthy name then name else userName u)\<rparr>;
          u2 = u1\<lparr>coins := js_add (coins u1) safe\<rparr>;
          u3 = u2\<lparr>totalTaps := js_add (totalTaps u2) safe\<rparr>;
          u4 = u3\<lparr>level := calculateLevel (coins u3)\<rparr>
      in u4\<lparr>lastTap := now\<rparr>)"

definition handleTap :: "runtime \<Rightarrow> string \<Rightarrow> clock \<Rightarrow> jsval \<Rightarrow> state \<Rightarrow> state \<times> outcome" where
  "handleTap rt BOT_TOKEN clk body st =
     (if body = JNull \<or> body = JUndefined then (st, Thrown)
      else
        let uid = get_prop body ''userId'';
            name = get_prop body ''userName'';
            amount = get_prop body ''coins'';
            initData = get_prop body ''initData''
        in
          if \<not> truthy uid \<or> \<not> truthy amount then (st, Sent 400 (ErrorBody ''Missing data''))
          else if \<not> validateInitData rt BOT_TOKEN initData
            then (st, Sent 403 (ErrorBody ''Invalid initData''))
          else
            (case checkRateLimit uid (now_limit clk) (rateLimits st) of
               (False, rl) \<Rightarrow> (st\<lparr>rateLimits := rl\<rparr>, Sent 429 (ErrorBody ''Too fast''))
             | (True, rl) \<Rightarrow>
                 (case ToNumber rt amount of
                    None \<Rightarrow> (st\<lparr>rateLimits := rl\<rparr>, Thrown)
                  | Some n \<Rightarrow>
                      (let (i, us) = getUser uid (now_create clk) (users st);
                           u = merge name (safeCoins n) (now_tap clk) (snd (us ! i));
                           us' = us[i := (fst (us ! i), u)]
                       in (\<lparr>users = us', rateLimits = rl\<rparr>, Sent 200 (UserBody u))))))"

definition board_entry :: "user \<Rightarrow> entry" where
  "board_entry u =
     \<lparr>entry_userId = userId u, entry_userName = userName u,
      entry_coins = coins u, entry_level = level u\<rparr>"

definition handleLeaderboard :: "state \<Rightarrow> state \<times> outcome" where
  "handleLeaderboard st =
     (let sorted = map board_entry
                     (take 100 (js_sort (\<lambda>a b. js_sub (coins b) (coins a)) (map snd (users st))))
      in (st, Sent 200 (BoardBody sorted)))"

text \<open>The request callback around \<open>handleTap\<close>: a body that does not parse, or a handler
  that throws, is answered with 400.\<close>

definition tap_route :: "runtime \<Rightarrow> string \<Rightarrow> clock \<Rightarrow> jsval option \<Rightarrow> state \<Rightarrow> state \<times> outcome" where
  "tap_route rt BOT_TOKEN clk parsed st =
     (case parsed of
        None \<Rightarrow> (st, Sent 400 (ErrorBody ''Invalid JSON''))
      | Some body \<Rightarrow>
          (case handleTap rt BOT_TOKEN clk body st of
             (st', Thrown) \<Rightarrow> (st', Sent 400 (ErrorBody ''Invalid JSON''))
           | (st', Sent code data) \<Rightarrow> (st', Sent code data)))"

text \<open>The states the server can be in: those the three API routes produce from the empty
  Maps. The user id of \<^verbatim>\<open>GET /api/user/:id\<close> is a piece of the URL path, a string.\<close>

inductive reachable :: "runtime \<Rightarrow> string \<Rightarrow> state \<Rightarrow> bool" for rt :: runtime and BOT_TOKEN :: string where
  reach_initial: "reachable rt BOT_TOKEN initial"
| reach_user: "reachable rt BOT_TOKEN st \<Longrightarrow>
     reachable rt BOT_TOKEN (fst (handleGetUser (JStr uid) now st))"
| reach_tap: "reachable rt BOT_TOKEN st \<Longrightarrow>
     reachable rt BOT_TOKEN (fst (tap_route rt BOT_TOKEN clk parsed st))"
| reach_board: "reachable rt BOT_TOKEN st \<Longrightarrow>
     reachable rt BOT_TOKEN (fst (handleLeaderboard st))"

subsection \<open>Observations and example inputs\<close>

text \<open>The balance the store holds for a user id: the \<open>coins\<close> of its record, and 0, the
  balance of the record that the first reference creates, while it has none.\<close>

definition totalCoins :: "jsval \<Rightarrow> state \<Rightarrow> jsnum" where
  "totalCoins uid st = (case map_get uid (users st) of None \<Rightarrow> Fin 0 | Some u \<Rightarrow> coins u)"

text \<open>A call during which every reading of the clock gives the same time.\<close>

definition at_time :: "int \<Rightarrow> clock" where
  "at_time t = \<lparr>now_limit = t, now_create = t, now_tap = t\<rparr>"

text \<open>A platform of stubs, to run the model on inputs for which the platform functions are
  not consulted or their results do not matter.\<close>

definition stub_runtime :: runtime where
  "stub_runtime =
     \<lparr>StringToNumber = (\<lambda>s. NaN), NumberToString = (\<lambda>n. []),
      localeCompare = (\<lambda>a b. 0), hmac_sha256 = (\<lambda>k m. [])\<rparr>"

section \<open>Auxiliary facts\<close>

lemmas run_defs = handleTap_def validateInitData_def checkRateLimit_def map_get_def map_set_def
  getUser_def new_user_def merge_def safeCoins_def calculateLevel_def initial_def Let_def
  totalCoins_def stub_runtime_def at_time_def

lemmas parse_defs = parse_init_def parse_query_def parse_pair_def form_decode_def params_get_def
  params_delete_def

lemmas board_defs = handleLeaderboard_def js_sort_def js_sub_def board_entry_def

subsection \<open>Map\<close>

lemma map_index_Some:
  "map_index k m = Some i \<Longrightarrow> i < length m \<and> fst (m ! i) = k \<and> \<not> is_reference k"
proof (induction m arbitrary: i)
  case Nil
  then show ?case by simp
next
  case (Cons p m)
  obtain k' v where p: "p = (k', v)" by (cases p)
  show ?case
  proof (cases "\<not> is_reference k \<and> k' = k")
    case True
    with Cons.prems p show ?thesis by simp
  next
    case False
    with Cons.prems p obtain j where j: "map_index k m = Some j" "i = Suc j"
      by (auto split: if_splits)
    from Cons.IH[OF j(1)] j(2) show ?thesis by simp
  qed
qed

lemma map_index_update:
  "map_index k m = Some i \<Longrightarrow> map_index k (m[i := (k, v)]) = Some i"
proof (induction m arbitrary: i)
  case Nil
  then show ?case by simp
next
  case (Cons p m)
  obtain k' v' where p: "p = (k', v')" by (cases p)
  show ?case
  proof (cases "\<not> is_reference k \<and> k' = k")
    case True
    with Cons.prems p show ?thesis by simp
  next
    case False
    with Cons.prems p obtain j where j: "map_index k m = Some j" "i = Suc j"
      by (auto split: if_splits)
    from Cons.IH[OF j(1)] j(2) False p show ?thesis by auto
  qed
qed

lemma map_index_append_new:
  "map_index k m = None \<Longrightarrow> \<not> is_reference k \<Longrightarrow> map_index k (m @ [(k, v)]) = Some (length m)"
  by (induction m) (auto split: if_splits)

lemma map_get_set: "\<not> is_reference k \<Longrightarrow> map_get k (map_set k v m) = Some v"
proof (cases "map_index k m")
  case None
  assume "\<not> is_reference k"
  from map_index_append_new[OF None this, of v] None show ?thesis
    by (simp add: map_get_def map_set_def)
next
  case (Some i)
  from map_index_Some[OF Some] map_index_update[OF Some, of v] Some show ?thesis
    by (simp add: map_get_def map_set_def)
qed

subsection \<open>getUser and the merge\<close>

lemma getUser_index:
  "getUser uid now us = (i, us') \<Longrightarrow> i < length us' \<and> fst (us' ! i) = uid"
  by (auto simp: getUser_def nth_append dest: map_index_Some split: option.splits)

lemma getUser_balance:
  "getUser uid now us = (i, us') \<Longrightarrow>
     coins (snd (us' ! i)) = (case map_get uid us of None \<Rightarrow> Fin 0 | Some u \<Rightarrow> coins u)"
  by (auto simp: getUser_def new_user_def map_get_def nth_append dest: map_index_Some
           split: option.splits)

lemma getUser_then_update:
  assumes "getUser uid now us = (i, us')" "\<not> is_reference uid"
  shows "map_get uid (us'[i := (fst (us' ! i), u)]) = Some u"
proof (cases "map_index uid us")
  case None
  with assms obtain d where e: "i = length us" "us' = us @ [(uid, d)]"
    by (auto simp: getUser_def)
  then have "us'[i := (fst (us' ! i), u)] = us @ [(uid, u)]" by simp
  with map_index_append_new[OF None assms(2), of u]
  show ?thesis by (simp add: map_get_def)
next
  case (Some j)
  with assms have e: "i = j" "us' = us" by (auto simp: getUser_def)
  from map_index_Some[OF Some] map_index_update[OF Some, of u]
  show ?thesis using e by (simp add: map_get_def)
qed

lemma getUser_preserves:
  assumes "\<forall>(k, u) \<in> set us. P u"
    and "P (new_user uid now)"
    and "getUser uid now us = (i, us')"
  shows "\<forall>(k, u) \<in> set us'. P u"
  using assms by (auto simp: getUser_def split: option.splits)

lemma merge_coins: "coins (merge name safe now u) = js_add (coins u) safe"
  by (simp add: merge_def Let_def)

lemma js_add_zero: "js_add a (Fin 0) = a"
  by (cases a) auto

lemma safeCoins_cases:
  "safeCoins d = (case d of Fin q \<Rightarrow> Fin (of_int (min (max 0 \<lfloor>q\<rfloor>) 50)) | PInf \<Rightarrow> Fin 50
                   | NInf \<Rightarrow> Fin 0 | NaN \<Rightarrow> NaN)"
  by (cases d) (auto simp: safeCoins_def min_def max_def)

lemma safeCoins_negative: "js_ge (Fin 0) d \<Longrightarrow> safeCoins d = Fin 0"
  by (cases d) (auto simp: safeCoins_cases max_def min_def floor_le_iff dest: order_trans)

lemma checkRateLimit_admitted:
  "checkRateLimit uid now rl = (True, rl') \<Longrightarrow> \<not> is_reference uid \<Longrightarrow> map_get uid rl' = Some now"
  by (auto simp: checkRateLimit_def Let_def map_get_set split: if_splits)

subsection \<open>The outcomes of handleTap\<close>

lemma handleTap_accepted:
  assumes "handleTap rt tok clk body st = (st', Sent 200 (UserBody u))"
  obtains n i us where
    "body \<noteq> JNull" "body \<noteq> JUndefined"
    "truthy (get_prop body ''userId'')" "truthy (get_prop body ''coins'')"
    "validateInitData rt tok (get_prop body ''initData'')"
    "checkRateLimit (get_prop body ''userId'') (now_limit clk) (rateLimits st) = (True, rateLimits st')"
    "ToNumber rt (get_prop body ''coins'') = Some n"
    "getUser (get_prop body ''userId'') (now_create clk) (users st) = (i, us)"
    "u = merge (get_prop body ''userName'') (safeCoins n) (now_tap clk) (snd (us ! i))"
    "users st' = us[i := (fst (us ! i), u)]"
  using assms
  by (auto simp: handleTap_def Let_def split: if_splits prod.splits bool.splits option.splits)

lemma handleTap_accepted_balance:
  assumes "handleTap rt tok clk body st = (st', Sent 200 (UserBody u))"
  obtains n where "ToNumber rt (get_prop body ''coins'') = Some n"
    and "coins u = js_add (totalCoins (get_prop body ''userId'') st) (safeCoins n)"
    and "\<not> is_reference (get_prop body ''userId'') \<longrightarrow>
           totalCoins (get_prop body ''userId'') st' = coins u"
proof -
  from assms obtain n i us where
    n: "ToNumber rt (get_prop body ''coins'') = Some n"
    and g: "getUser (get_prop body ''userId'') (now_create clk) (users st) = (i, us)"
    and u: "u = merge (get_prop body ''userName'') (safeCoins n) (now_tap clk) (snd (us ! i))"
    and s: "users st' = us[i := (fst (us ! i), u)]"
    by (rule handleTap_accepted)
  have a: "coins u = js_add (totalCoins (get_prop body ''userId'') st) (safeCoins n)"
    using u getUser_balance[OF g] by (simp add: merge_coins totalCoins_def)
  have b: "\<not> is_reference (get_prop body ''userId'') \<longrightarrow>
           totalCoins (get_prop body ''userId'') st' = coins u"
    using getUser_then_update[OF g, of u] s by (simp add: totalCoins_def)
  from n a b that show ?thesis by blast
qed

lemma handleTap_rejected:
  assumes "handleTap rt tok clk body st = (st', out)"
    and "\<forall>u. out \<noteq> Sent 200 (UserBody u)"
  shows "users st' = users st"
    and "out \<noteq> Thrown \<Longrightarrow> st' = st"
    and "out \<in> {Sent 400 (ErrorBody ''Missing data''), Sent 403 (ErrorBody ''Invalid initData''),
                 Sent 429 (ErrorBody ''Too fast''), Thrown}"
  using assms
  by (auto simp: handleTap_def checkRateLimit_def Let_def
           split: if_splits prod.splits bool.splits option.splits)

lemma handleTap_users:
  assumes "handleTap rt tok clk body st = (st', out)"
  shows "users st' = users st
       \<or> (\<exists>uid name n i us. getUser uid (now_create clk) (users st) = (i, us)
            \<and> users st' = us[i := (fst (us ! i), merge name (safeCoins n) (now_tap clk) (snd (us ! i)))])"
proof (cases "\<exists>u. out = Sent 200 (UserBody u)")
  case True
  then obtain u where "handleTap rt tok clk body st = (st', Sent 200 (UserBody u))"
    using assms by blast
  then obtain n i us where
    "getUser (get_prop body ''userId'') (now_create clk) (users st) = (i, us)"
    "u = merge (get_prop body ''userName'') (safeCoins n) (now_tap clk) (snd (us ! i))"
    "users st' = us[i := (fst (us ! i), u)]"
    by (rule handleTap_accepted)
  then show ?thesis by blast
next
  case False
  with handleTap_rejected(1)[OF assms] show ?thesis by blast
qed

subsection \<open>Invariants of the store\<close>

lemma handleTap_preserves:
  assumes inv: "\<forall>(k, u) \<in> set (users st). P u"
    and dflt: "\<And>uid now. P (new_user uid now)"
    and mrg: "\<And>name safe now u. P u \<Longrightarrow> P (merge name safe now u)"
    and run: "handleTap rt tok clk body st = (st', out)"
  shows "\<forall>(k, u) \<in> set (users st'). P u"
proof -
  from handleTap_users[OF run] show ?thesis
  proof
    assume "users st' = users st"
    with inv show ?thesis by simp
  next
    assume "\<exists>uid name n i us. getUser uid (now_create clk) (users st) = (i, us)
            \<and> users st' = us[i := (fst (us ! i), merge name (safeCoins n) (now_tap clk) (snd (us ! i)))]"
    then obtain uid name n i us where g: "getUser uid (now_create clk) (users st) = (i, us)"
      and s: "users st' = us[i := (fst (us ! i), merge name (safeCoins n) (now_tap clk) (snd (us ! i)))]"
      by blast
    from getUser_preserves[of "users st" P, OF inv dflt g] have a: "\<forall>(k, u) \<in> set us. P u" .
    from getUser_index[OF g] have "i < length us" by simp
    then have "us ! i \<in> set us" by simp
    with a have "P (snd (us ! i))" by (cases "us ! i") auto
    then have m: "P (merge name (safeCoins n) (now_tap clk) (snd (us ! i)))" by (rule mrg)
    show ?thesis
    proof (clarify)
      fix k u assume "(k, u) \<in> set (users st')"
      with s have "(k, u) \<in> insert (fst (us ! i), merge name (safeCoins n) (now_tap clk) (snd (us ! i))) (set us)"
        using set_update_subset_insert by fastforce
      with a m show "P u" by auto
    qed
  qed
qed

lemma reachable_invariant:
  assumes "reachable rt tok st"
    and dflt: "\<And>uid now. P (new_user uid now)"
    and mrg: "\<And>name safe now u. P u \<Longrightarrow> P (merge name safe now u)"
  shows "\<forall>(k, u) \<in> set (users st). P u"
  using assms(1)
proof (induction rule: reachable.induct)
  case reach_initial
  show ?case by (simp add: initial_def)
next
  case (reach_user st uid now)
  obtain i us where g: "getUser (JStr uid) now (users st) = (i, us)"
    by (cases "getUser (JStr uid) now (users st)")
  from getUser_preserves[of "users st" P, OF reach_user.IH dflt g] g
  show ?case by (simp add: handleGetUser_def)
next
  case (reach_tap st clk parsed)
  show ?case
  proof (cases parsed)
    case None
    with reach_tap.IH show ?thesis by (simp add: tap_route_def)
  next
    case (Some body)
    obtain st' out where r: "handleTap rt tok clk body st = (st', out)"
      by (cases "handleTap rt tok clk body st")
    from handleTap_preserves[of st P, OF reach_tap.IH dflt mrg r]
    have "\<forall>(k, u) \<in> set (users st'). P u" .
    with Some r show ?thesis by (cases out) (simp_all add: tap_route_def)
  qed
next
  case (reach_board st)
  then show ?case by (simp add: handleLeaderboard_def)
qed

lemma calculateLevel_mono: "js_ge b a \<Longrightarrow> calculateLevel a \<le> calculateLevel b"
  by (cases a; cases b) (auto simp: calculateLevel_def)

subsection \<open>Sorting\<close>

lemma insert_sorted_set: "set (insert_sorted cmp x ys) = insert x (set ys)"
  by (induction ys) auto

lemma js_sort_set: "set (js_sort cmp xs) = set xs"
  by (induction xs) (auto simp: js_sort_def insert_sorted_set)

lemma not_positive_ge: "a \<noteq> NaN \<Longrightarrow> b \<noteq> NaN \<Longrightarrow> \<not> js_positive (js_sub b a) \<Longrightarrow> js_ge a b"
  by (cases a; cases b) (auto simp: js_sub_def)

lemma positive_ge: "js_positive (js_sub b a) \<Longrightarrow> js_ge b a"
  by (cases a; cases b) (auto simp: js_sub_def)

lemma js_ge_trans: "js_ge a b \<Longrightarrow> js_ge b c \<Longrightarrow> js_ge a c"
  by (cases a; cases b; cases c) auto

lemma insert_sorted_sorted:
  assumes "sorted_wrt (\<lambda>a b. js_ge (f a) (f b)) ys"
    and "f x \<noteq> NaN" and "\<forall>y \<in> set ys. f y \<noteq> NaN"
  shows "sorted_wrt (\<lambda>a b. js_ge (f a) (f b)) (insert_sorted (\<lambda>a b. js_sub (f b) (f a)) x ys)"
  using assms
proof (induction ys)
  case Nil
  then show ?case by simp
next
  case (Cons y ys)
  show ?case
  proof (cases "js_positive (js_sub (f y) (f x))")
    case True
    then have yx: "js_ge (f y) (f x)" by (rule positive_ge)
    from Cons have "sorted_wrt (\<lambda>a b. js_ge (f a) (f b)) (insert_sorted (\<lambda>a b. js_sub (f b) (f a)) x ys)"
      by simp
    moreover from Cons.prems(1) yx
    have "\<forall>z \<in> set (insert_sorted (\<lambda>a b. js_sub (f b) (f a)) x ys). js_ge (f y) (f z)"
      by (simp add: insert_sorted_set)
    ultimately show ?thesis using True by simp
  next
    case False
    with Cons.prems have xy: "js_ge (f x) (f y)" by (simp add: not_positive_ge)
    from Cons.prems(1) have "\<forall>z \<in> set ys. js_ge (f y) (f z)" by simp
    with xy have "\<forall>z \<in> set ys. js_ge (f x) (f z)" by (blast intro: js_ge_trans)
    with xy Cons.prems(1) False show ?thesis by simp
  qed
qed

lemma js_sort_sorted:
  "\<forall>y \<in> set xs. f y \<noteq> NaN \<Longrightarrow>
     sorted_wrt (\<lambda>a b. js_ge (f a) (f b)) (js_sort (\<lambda>a b. js_sub (f b) (f a)) xs)"
proof (induction xs)
  case Nil
  then show ?case by (simp add: js_sort_def)
next
  case (Cons x xs)
  then have s: "sorted_wrt (\<lambda>a b. js_ge (f a) (f b)) (js_sort (\<lambda>a b. js_sub (f b) (f a)) xs)"
    by simp
  from Cons.prems have n: "\<forall>y \<in> set (js_sort (\<lambda>a b. js_sub (f b) (f a)) xs). f y \<noteq> NaN"
    by (simp add: js_sort_set)
  from Cons.prems have "f x \<noteq> NaN" by simp
  from insert_sorted_sorted[of f, OF s this n] show ?case by (simp add: js_sort_def)
qed

lemma sorted_wrt_take_list: "sorted_wrt R xs \<Longrightarrow> sorted_wrt R (take n xs)"
  by (metis append_take_drop_id sorted_wrt_append)

section \<open>The clamp on an accepted sync\<close>

text \<open>
  C1. When \<open>handleTap\<close> accepts a request (status 200) whose \<^verbatim>\<open>coins\<close> is a number \<open>d\<close>, the
  balance of the returned record is the balance the store held for that user plus
  \<open>safeCoins d\<close>, and \<open>safeCoins d\<close> is \<open>min (max 0 (floor d)) 50\<close> (50 for an infinite \<open>d\<close>);
  in particular it is exactly 50 as soon as \<open>d\<close> is at least 50, so for every \<open>d\<close> above 50.
  For a balance that is a number \<open>c\<close> the new balance is \<open>c + min (max 0 (floor d)) 50\<close>, and
  it is the balance the store holds afterwards.
\<close>

theorem handleTap_credits_clamped_delta:
  assumes "handleTap rt tok clk body st = (st', Sent 200 (UserBody u))"
    and "get_prop body ''coins'' = JNum d"
    and "uid = get_prop body ''userId''"
  shows "coins u = js_add (totalCoins uid st) (safeCoins d)
       \<and> safeCoins d = (case d of Fin q \<Rightarrow> Fin (of_int (min (max 0 \<lfloor>q\<rfloor>) 50)) | PInf \<Rightarrow> Fin 50
                          | NInf \<Rightarrow> Fin 0 | NaN \<Rightarrow> NaN)
       \<and> (js_ge d (Fin 50) \<longrightarrow> safeCoins d = Fin 50)
       \<and> (\<forall>c q. totalCoins uid st = Fin c \<and> d = Fin q \<longrightarrow>
              coins u = Fin (c + of_int (min (max 0 \<lfloor>q\<rfloor>) 50)))
       \<and> (\<not> is_reference uid \<longrightarrow> totalCoins uid st' = coins u)"
proof -
  from assms(1) obtain n where
    n: "ToNumber rt (get_prop body ''coins'') = Some n"
    and bal: "coins u = js_add (totalCoins (get_prop body ''userId'') st) (safeCoins n)"
    and aft: "\<not> is_reference (get_prop body ''userId'') \<longrightarrow>
           totalCoins (get_prop body ''userId'') st' = coins u"
    by (rule handleTap_accepted_balance)
  from n assms(2) have nd: "n = d" by simp
  have a: "coins u = js_add (totalCoins uid st) (safeCoins d)"
    using bal nd assms(3) by simp
  have b: "js_ge d (Fin 50) \<longrightarrow> safeCoins d = Fin 50"
    by (cases d) (auto simp: safeCoins_cases le_floor_iff)
  have c: "\<forall>c q. totalCoins uid st = Fin c \<and> d = Fin q \<longrightarrow>
              coins u = Fin (c + of_int (min (max 0 \<lfloor>q\<rfloor>) 50))"
    using a by (auto simp: safeCoins_cases)
  have e: "\<not> is_reference uid \<longrightarrow> totalCoins uid st' = coins u"
    using aft assms(3) by simp
  from a b c e show ?thesis using safeCoins_cases[of d] by blast
qed

text \<open>The first sync of user \<^verbatim>\<open>u1\<close>, reporting 9999 coins, is accepted and credits 50.\<close>

theorem handleTap_credits_clamped_delta_witness:
  "handleTap stub_runtime [] (at_time 1700000000000)
     (JObj [(''userId'', JStr ''u1''), (''coins'', JNum (Fin 9999))]) initial
   = (\<lparr>users = [(JStr ''u1'', (new_user (JStr ''u1'') 1700000000000)
                                  \<lparr>coins := Fin 50, totalTaps := Fin 50\<rparr>)],
       rateLimits = [(JStr ''u1'', 1700000000000)]\<rparr>,
      Sent 200 (UserBody ((new_user (JStr ''u1'') 1700000000000)
                            \<lparr>coins := Fin 50, totalTaps := Fin 50\<rparr>)))
   \<and> js_add (totalCoins (JStr ''u1'') initial) (safeCoins (Fin 9999)) = Fin 50"
proof -
  let ?body = "JObj [(''userId'', JStr ''u1''), (''coins'', JNum (Fin 9999))]"
  let ?u = "(new_user (JStr ''u1'') 1700000000000)\<lparr>coins := Fin 50, totalTaps := Fin 50\<rparr>"
  have run: "handleTap stub_runtime [] (at_time 1700000000000) ?body initial
   = (\<lparr>users = [(JStr ''u1'', ?u)], rateLimits = [(JStr ''u1'', 1700000000000)]\<rparr>,
      Sent 200 (UserBody ?u))"
    by (simp add: run_defs)
  have c: "get_prop ?body ''coins'' = JNum (Fin 9999)" by simp
  have i: "JStr ''u1'' = get_prop ?body ''userId''" by simp
  from handleTap_credits_clamped_delta[OF run c i]
  have "coins ?u = js_add (totalCoins (JStr ''u1'') initial) (safeCoins (Fin 9999))" by blast
  with run show ?thesis by (simp add: new_user_def)
qed

section \<open>Validation of the reported amount\<close>

text \<open>
  C2, as the code has it. The only validation of \<^verbatim>\<open>coins\<close> is \<^verbatim>\<open>!coins\<close>: a request whose
  \<^verbatim>\<open>coins\<close> is falsy (absent, \<^verbatim>\<open>null\<close>, \<^verbatim>\<open>false\<close>, 0, \<^verbatim>\<open>NaN\<close> or the empty string) is
  answered 400 \<^verbatim>\<open>Missing data\<close> and leaves the whole state as it was. A negative number is
  not rejected by the validation (given a user id); if the request is accepted, the clamp
  credits 0 and the balance is the one the store held.
\<close>

theorem handleTap_rejects_falsy_coins:
  assumes "body \<noteq> JNull" and "body \<noteq> JUndefined"
  shows "(\<not> truthy (get_prop body ''coins'') \<longrightarrow>
            handleTap rt tok clk body st = (st, Sent 400 (ErrorBody ''Missing data'')))
       \<and> (\<forall>d. get_prop body ''coins'' = JNum d \<and> js_ge (Fin 0) d \<and> d \<noteq> Fin 0
              \<and> truthy (get_prop body ''userId'') \<longrightarrow>
            snd (handleTap rt tok clk body st) \<noteq> Sent 400 (ErrorBody ''Missing data'')
            \<and> (\<forall>st' u. handleTap rt tok clk body st = (st', Sent 200 (UserBody u)) \<longrightarrow>
                  coins u = totalCoins (get_prop body ''userId'') st))"
proof (intro conjI impI allI)
  assume "\<not> truthy (get_prop body ''coins'')"
  with assms show "handleTap rt tok clk body st = (st, Sent 400 (ErrorBody ''Missing data''))"
    by (simp add: handleTap_def Let_def)
next
  fix d
  assume h: "get_prop body ''coins'' = JNum d \<and> js_ge (Fin 0) d \<and> d \<noteq> Fin 0
              \<and> truthy (get_prop body ''userId'')"
  then have t: "truthy (get_prop body ''coins'')" by (cases d) auto
  with h assms show "snd (handleTap rt tok clk body st) \<noteq> Sent 400 (ErrorBody ''Missing data'')"
    by (auto simp: handleTap_def Let_def split: prod.splits bool.splits option.splits)
next
  fix d st' u
  assume h: "get_prop body ''coins'' = JNum d \<and> js_ge (Fin 0) d \<and> d \<noteq> Fin 0
              \<and> truthy (get_prop body ''userId'')"
    and r: "handleTap rt tok clk body st = (st', Sent 200 (UserBody u))"
  from h have d: "get_prop body ''coins'' = JNum d" and neg: "js_ge (Fin 0) d" by simp_all
  from r obtain n where n: "ToNumber rt (get_prop body ''coins'') = Some n"
    and bal: "coins u = js_add (totalCoins (get_prop body ''userId'') st) (safeCoins n)"
    by (rule handleTap_accepted_balance)
  from n d have "n = d" by simp
  with neg have "safeCoins n = Fin 0" by (simp add: safeCoins_negative)
  with bal show "coins u = totalCoins (get_prop body ''userId'') st"
    by (simp add: js_add_zero)
qed

text \<open>A request without \<^verbatim>\<open>coins\<close> is answered 400 and changes nothing; the same user
  reporting \<open>-5\<close> coins is not answered 400.\<close>

theorem handleTap_rejects_falsy_coins_witness:
  "handleTap stub_runtime [] (at_time 1700000000000) (JObj [(''userId'', JStr ''u1'')]) initial
     = (initial, Sent 400 (ErrorBody ''Missing data''))
   \<and> snd (handleTap stub_runtime [] (at_time 1700000000000)
            (JObj [(''userId'', JStr ''u1''), (''coins'', JNum (Fin (- 5)))]) initial)
     \<noteq> Sent 400 (ErrorBody ''Missing data'')"
proof -
  let ?b1 = "JObj [(''userId'', JStr ''u1'')]"
  let ?b2 = "JObj [(''userId'', JStr ''u1''), (''coins'', JNum (Fin (- 5)))]"
  have f: "\<not> truthy (get_prop ?b1 ''coins'')" by simp
  have g: "get_prop ?b2 ''coins'' = JNum (Fin (- 5)) \<and> js_ge (Fin 0) (Fin (- 5))
            \<and> Fin (- 5) \<noteq> Fin 0 \<and> truthy (get_prop ?b2 ''userId'')" by simp
  from handleTap_rejects_falsy_coins[of ?b1 stub_runtime "[]" "at_time 1700000000000" initial] f
  have a: "handleTap stub_runtime [] (at_time 1700000000000) ?b1 initial
     = (initial, Sent 400 (ErrorBody ''Missing data''))" by blast
  from handleTap_rejects_falsy_coins[of ?b2 stub_runtime "[]" "at_time 1700000000000" initial] g
  have b: "snd (handleTap stub_runtime [] (at_time 1700000000000) ?b2 initial)
     \<noteq> Sent 400 (ErrorBody ''Missing data'')" by blast
  from a b show ?thesis by blast
qed

text \<open>C2 as the specification states it fails: with no bot token configured, the first
  sync of user \<^verbatim>\<open>u1\<close> reporting \<open>-5\<close> coins is answered 200, not 400.\<close>

theorem negative_coins_not_rejected:
  "handleTap stub_runtime [] (at_time 1700000000000)
     (JObj [(''userId'', JStr ''u1''), (''coins'', JNum (Fin (- 5)))]) initial
   = (\<lparr>users = [(JStr ''u1'', new_user (JStr ''u1'') 1700000000000)],
       rateLimits = [(JStr ''u1'', 1700000000000)]\<rparr>,
      Sent 200 (UserBody (new_user (JStr ''u1'') 1700000000000)))
   \<and> Sent 200 (UserBody (new_user (JStr ''u1'') 1700000000000))
       \<noteq> Sent 400 (ErrorBody ''Missing data'')"
  by (simp add: run_defs)

section \<open>Rejections leave the store alone\<close>

text \<open>
  C3. Whenever \<open>handleTap\<close> does not answer 200, the \<open>users\<close> Map is exactly as it was before
  the call: no record is created and none is modified. The outcome is then one of 400
  \<^verbatim>\<open>Missing data\<close>, 403 \<^verbatim>\<open>Invalid initData\<close>, 429 \<^verbatim>\<open>Too fast\<close> or a thrown exception, and for
  the three answers the rate limiter is unchanged too.
\<close>

theorem handleTap_rejection_keeps_store:
  assumes "handleTap rt tok clk body st = (st', out)"
    and "\<forall>u. out \<noteq> Sent 200 (UserBody u)"
  shows "users st' = users st
       \<and> (out \<noteq> Thrown \<longrightarrow> st' = st)
       \<and> out \<in> {Sent 400 (ErrorBody ''Missing data''), Sent 403 (ErrorBody ''Invalid initData''),
                 Sent 429 (ErrorBody ''Too fast''), Thrown}"
  using handleTap_rejected[OF assms] by blast

text \<open>With a bot token configured, a sync of \<^verbatim>\<open>u1\<close> whose payload has no \<^verbatim>\<open>hash\<close> is answered
  403, and the record of \<^verbatim>\<open>u2\<close> that the store held is all it holds afterwards.\<close>

theorem handleTap_rejection_keeps_store_witness:
  "snd (handleTap stub_runtime ''secret'' (at_time 1700000000000)
          (JObj [(''userId'', JStr ''u1''), (''coins'', JNum (Fin 5)),
                 (''initData'', JStr ''user=1'')])
          \<lparr>users = [(JStr ''u2'', new_user (JStr ''u2'') 1600000000000)], rateLimits = []\<rparr>)
     = Sent 403 (ErrorBody ''Invalid initData'')
   \<and> users (fst (handleTap stub_runtime ''secret'' (at_time 1700000000000)
          (JObj [(''userId'', JStr ''u1''), (''coins'', JNum (Fin 5)),
                 (''initData'', JStr ''user=1'')])
          \<lparr>users = [(JStr ''u2'', new_user (JStr ''u2'') 1600000000000)], rateLimits = []\<rparr>))
     = [(JStr ''u2'', new_user (JStr ''u2'') 1600000000000)]"
proof -
  let ?body = "JObj [(''userId'', JStr ''u1''), (''coins'', JNum (Fin 5)),
                 (''initData'', JStr ''user=1'')]"
  let ?st = "\<lparr>users = [(JStr ''u2'', new_user (JStr ''u2'') 1600000000000)], rateLimits = []\<rparr>"
  let ?r = "handleTap stub_runtime ''secret'' (at_time 1700000000000) ?body ?st"
  have out: "snd ?r = Sent 403 (ErrorBody ''Invalid initData'')"
    by (simp add: run_defs parse_defs)
  have run: "?r = (fst ?r, snd ?r)" by simp
  have no: "\<forall>u. snd ?r \<noteq> Sent 200 (UserBody u)" using out by simp
  from handleTap_rejection_keeps_store[OF run no]
  have "users (fst ?r) = users ?st" by blast
  with out show ?thesis by simp
qed

section \<open>The level is a function of the balance\<close>

text \<open>
  C4. In every state the server can reach (records are created by \<open>getUser\<close> and changed
  only by the merge of \<open>handleTap\<close>), the \<open>level\<close> of every record is \<open>calculateLevel\<close> of its
  \<open>coins\<close>. On a number \<open>c\<close>, \<open>calculateLevel\<close> is the step function: 1 below 1000, 2 below
  10000, 3 below 50000, 4 below 100000 and 5 from 100000 on; and it never decreases when
  its argument grows.
\<close>

theorem level_follows_coins:
  "(reachable rt tok st \<longrightarrow> (\<forall>(k, u) \<in> set (users st). level u = calculateLevel (coins u)))
 \<and> (\<forall>c. calculateLevel (Fin c) =
        (if c < 1000 then 1 else if c < 10000 then 2 else if c < 50000 then 3
         else if c < 100000 then 4 else 5))
 \<and> (\<forall>a b. js_ge b a \<longrightarrow> calculateLevel a \<le> calculateLevel b)"
proof (intro conjI impI allI)
  assume "reachable rt tok st"
  then show "\<forall>(k, u) \<in> set (users st). level u = calculateLevel (coins u)"
    by (rule reachable_invariant) (simp_all add: calculateLevel_def new_user_def merge_def Let_def)
next
  fix c show "calculateLevel (Fin c) =
        (if c < 1000 then 1 else if c < 10000 then 2 else if c < 50000 then 3
         else if c < 100000 then 4 else 5)"
    by (simp add: calculateLevel_def)
next
  fix a b assume "js_ge b a" then show "calculateLevel a \<le> calculateLevel b"
    by (rule calculateLevel_mono)
qed

text \<open>The state after the first sync of \<^verbatim>\<open>u1\<close> (9999 coins reported, 50 credited) is
  reachable, and the level of its one record is that of its balance.\<close>

theorem level_follows_coins_witness:
  "reachable stub_runtime []
     (fst (tap_route stub_runtime [] (at_time 1700000000000)
             (Some (JObj [(''userId'', JStr ''u1''), (''coins'', JNum (Fin 9999))])) initial))
   \<and> users (fst (tap_route stub_runtime [] (at_time 1700000000000)
             (Some (JObj [(''userId'', JStr ''u1''), (''coins'', JNum (Fin 9999))])) initial))
      = [(JStr ''u1'', (new_user (JStr ''u1'') 1700000000000)
                          \<lparr>coins := Fin 50, totalTaps := Fin 50\<rparr>)]
   \<and> level ((new_user (JStr ''u1'') 1700000000000)\<lparr>coins := Fin 50, totalTaps := Fin 50\<rparr>)
      = calculateLevel (Fin 50)"
proof -
  let ?st = "fst (tap_route stub_runtime [] (at_time 1700000000000)
             (Some (JObj [(''userId'', JStr ''u1''), (''coins'', JNum (Fin 9999))])) initial)"
  let ?u = "(new_user (JStr ''u1'') 1700000000000)\<lparr>coins := Fin 50, totalTaps := Fin 50\<rparr>"
  have r: "reachable stub_runtime [] ?st" by (rule reach_tap[OF reach_initial])
  have us: "users ?st = [(JStr ''u1'', ?u)]" by (simp add: tap_route_def run_defs)
  from level_follows_coins[of stub_runtime "[]" ?st] r
  have "\<forall>(k, u) \<in> set (users ?st). level u = calculateLevel (coins u)" by blast
  with us have "level ?u = calculateLevel (coins ?u)" by simp
  with r us show ?thesis by (simp add: new_user_def)
qed

section \<open>The cooldown\<close>

text \<open>
  C5. Let a first sync of a user be accepted, its call of \<open>checkRateLimit\<close> reading the time
  \<open>now_limit clk1\<close>, and let a second request for the same user id (a primitive value, as a
  string is) pass the validation and the check of its payload. If the second reads the
  clock less than 500 ms after the first, it is answered 429 \<^verbatim>\<open>Too fast\<close> and changes
  nothing: the balance of the store is that of the record the first sync returned, which
  is the former balance plus the clamped amount of the first sync.
\<close>

theorem second_sync_in_cooldown_rejected:
  assumes "handleTap rt tok clk1 body1 st = (st1, Sent 200 (UserBody u1))"
    and "get_prop body1 ''userId'' = uid" and "get_prop body2 ''userId'' = uid"
    and "\<not> is_reference uid"
    and "body2 \<noteq> JNull" and "body2 \<noteq> JUndefined"
    and "truthy (get_prop body2 ''coins'')"
    and "validateInitData rt tok (get_prop body2 ''initData'')"
    and "now_limit clk2 - now_limit clk1 < 500"
  shows "handleTap rt tok clk2 body2 st1 = (st1, Sent 429 (ErrorBody ''Too fast''))
       \<and> totalCoins uid st1 = coins u1
       \<and> (\<forall>n. ToNumber rt (get_prop body1 ''coins'') = Some n \<longrightarrow>
             coins u1 = js_add (totalCoins uid st) (safeCoins n))"
proof -
  from assms(1) obtain
    t: "truthy (get_prop body1 ''userId'')"
    and c: "checkRateLimit (get_prop body1 ''userId'') (now_limit clk1) (rateLimits st)
              = (True, rateLimits st1)"
    by (rule handleTap_accepted)
  from assms(1) obtain n where
    n: "ToNumber rt (get_prop body1 ''coins'') = Some n"
    and bal: "coins u1 = js_add (totalCoins (get_prop body1 ''userId'') st) (safeCoins n)"
    and aft: "\<not> is_reference (get_prop body1 ''userId'') \<longrightarrow>
           totalCoins (get_prop body1 ''userId'') st1 = coins u1"
    by (rule handleTap_accepted_balance)
  from checkRateLimit_admitted[OF c] assms(2,4)
  have last: "map_get uid (rateLimits st1) = Some (now_limit clk1)" by simp
  have second: "handleTap rt tok clk2 body2 st1 = (st1, Sent 429 (ErrorBody ''Too fast''))"
    using assms(3,5-9) t assms(2) last
    by (simp add: handleTap_def checkRateLimit_def Let_def)
  have b: "totalCoins uid st1 = coins u1" using aft assms(2,4) by simp
  have inc: "\<forall>m. ToNumber rt (get_prop body1 ''coins'') = Some m \<longrightarrow>
             coins u1 = js_add (totalCoins uid st) (safeCoins m)"
    using n bal assms(2) by simp
  from second b inc show ?thesis by blast
qed

text \<open>User \<^verbatim>\<open>u1\<close> syncs 30 coins and, 100 ms later, 30 coins again: the second request is
  answered 429 and the balance stays 30.\<close>

theorem second_sync_in_cooldown_rejected_witness:
  "handleTap stub_runtime [] (at_time 1700000000000)
     (JObj [(''userId'', JStr ''u1''), (''coins'', JNum (Fin 30))]) initial
   = (\<lparr>users = [(JStr ''u1'', (new_user (JStr ''u1'') 1700000000000)
                                  \<lparr>coins := Fin 30, totalTaps := Fin 30\<rparr>)],
       rateLimits = [(JStr ''u1'', 1700000000000)]\<rparr>,
      Sent 200 (UserBody ((new_user (JStr ''u1'') 1700000000000)
                            \<lparr>coins := Fin 30, totalTaps := Fin 30\<rparr>)))
   \<and> handleTap stub_runtime [] (at_time 1700000000100)
       (JObj [(''userId'', JStr ''u1''), (''coins'', JNum (Fin 30))])
       \<lparr>users = [(JStr ''u1'', (new_user (JStr ''u1'') 1700000000000)
                                  \<lparr>coins := Fin 30, totalTaps := Fin 30\<rparr>)],
         rateLimits = [(JStr ''u1'', 1700000000000)]\<rparr>
     = (\<lparr>users = [(JStr ''u1'', (new_user (JStr ''u1'') 1700000000000)
                                  \<lparr>coins := Fin 30, totalTaps := Fin 30\<rparr>)],
         rateLimits = [(JStr ''u1'', 1700000000000)]\<rparr>,
        Sent 429 (ErrorBody ''Too fast''))
   \<and> totalCoins (JStr ''u1'')
       \<lparr>users = [(JStr ''u1'', (new_user (JStr ''u1'') 1700000000000)
                                  \<lparr>coins := Fin 30, totalTaps := Fin 30\<rparr>)],
         rateLimits = [(JStr ''u1'', 1700000000000)]\<rparr> = Fin 30"
proof -
  let ?body = "JObj [(''userId'', JStr ''u1''), (''coins'', JNum (Fin 30))]"
  let ?u = "(new_user (JStr ''u1'') 1700000000000)\<lparr>coins := Fin 30, totalTaps := Fin 30\<rparr>"
  let ?st1 = "\<lparr>users = [(JStr ''u1'', ?u)], rateLimits = [(JStr ''u1'', 1700000000000)]\<rparr>"
  have run: "handleTap stub_runtime [] (at_time 1700000000000) ?body initial
               = (?st1, Sent 200 (UserBody ?u))"
    by (simp add: run_defs)
  have i: "get_prop ?body ''userId'' = JStr ''u1''" by simp
  have p: "\<not> is_reference (JStr ''u1'')" by simp
  have b1: "?body \<noteq> JNull" and b2: "?body \<noteq> JUndefined" by simp_all
  have c: "truthy (get_prop ?body ''coins'')" by simp
  have v: "validateInitData stub_runtime [] (get_prop ?body ''initData'')"
    by (simp add: validateInitData_def)
  have t: "now_limit (at_time 1700000000100) - now_limit (at_time 1700000000000) < 500"
    by (simp add: at_time_def)
  from second_sync_in_cooldown_rejected[OF run i i p b1 b2 c v t]
  have "handleTap stub_runtime [] (at_time 1700000000100) ?body ?st1
          = (?st1, Sent 429 (ErrorBody ''Too fast''))
        \<and> totalCoins (JStr ''u1'') ?st1 = coins ?u" by blast
  with run show ?thesis by (simp add: new_user_def)
qed

section \<open>The balance under arbitrary request bodies\<close>

text \<open>
  C6: through every sequence of calls of \<open>getUser\<close>, \<open>handleTap\<close> and \<open>handleLeaderboard\<close>, with
  arbitrary request bodies, the balance of a user remains a non-negative integer and never
  decreases. The code does not keep this. \<open>handleTap\<close> clamps \<^verbatim>\<open>Math.floor(coins)\<close> between 0
  and 50, but \<^verbatim>\<open>Math.max\<close> and \<^verbatim>\<open>Math.min\<close> return \<^verbatim>\<open>NaN\<close> when given \<^verbatim>\<open>NaN\<close>, and a truthy
  value that is no number (an object, a non-numeric string) converts to \<^verbatim>\<open>NaN\<close>. With no bot
  token configured, whatever the platform functions are: user \<^verbatim>\<open>u1\<close> syncs 30 coins and holds
  a balance of 30; one second later the body \<^verbatim>\<open>{"userId":"u1","coins":{}}\<close> is accepted with
  status 200 and leaves the record with \<open>coins\<close> and \<open>totalTaps\<close> equal to \<^verbatim>\<open>NaN\<close>, which is no
  integer and stays \<^verbatim>\<open>NaN\<close> under every later addition.
\<close>

theorem non_numeric_coins_store_NaN:
  "totalCoins (JStr ''u1'')
     (fst (handleTap rt [] (at_time 1700000000000)
             (JObj [(''userId'', JStr ''u1''), (''coins'', JNum (Fin 30))]) initial)) = Fin 30
   \<and> handleTap rt [] (at_time 1700000001000)
       (JObj [(''userId'', JStr ''u1''), (''coins'', JObj [])])
       (fst (handleTap rt [] (at_time 1700000000000)
               (JObj [(''userId'', JStr ''u1''), (''coins'', JNum (Fin 30))]) initial))
     = (\<lparr>users = [(JStr ''u1'', \<lparr>userId = JStr ''u1'', userName = JStr ''Player'',
                       coins = NaN, totalTaps = NaN, level = 1, tapPower = 1,
                       lastTap = 1700000001000\<rparr>)],
         rateLimits = [(JStr ''u1'', 1700000001000)]\<rparr>,
        Sent 200 (UserBody \<lparr>userId = JStr ''u1'', userName = JStr ''Player'',
                       coins = NaN, totalTaps = NaN, level = 1, tapPower = 1,
                       lastTap = 1700000001000\<rparr>))"
  by (simp add: run_defs)

text \<open>After that request the balance of \<^verbatim>\<open>u1\<close> is not at least what it was before.\<close>

theorem non_numeric_coins_balance_lost:
  "\<not> js_ge
       (totalCoins (JStr ''u1'')
          (fst (handleTap stub_runtime [] (at_time 1700000001000)
                  (JObj [(''userId'', JStr ''u1''), (''coins'', JObj [])])
                  (fst (handleTap stub_runtime [] (at_time 1700000000000)
                     (JObj [(''userId'', JStr ''u1''), (''coins'', JNum (Fin 30))]) initial)))))
       (totalCoins (JStr ''u1'')
          (fst (handleTap stub_runtime [] (at_time 1700000000000)
                  (JObj [(''userId'', JStr ''u1''), (''coins'', JNum (Fin 30))]) initial)))"
  using non_numeric_coins_store_NaN[of stub_runtime]
  by (simp add: totalCoins_def map_get_def new_user_def)

text \<open>
  What does hold: a sync whose \<^verbatim>\<open>coins\<close> is a number keeps the balance a non-negative
  integer and never lowers it. If the store holds the integer \<open>c \<ge> 0\<close> for the user, the
  record returned by an accepted sync holds an integer between \<open>c\<close> and \<open>c + 50\<close>.
\<close>

theorem numeric_sync_keeps_integer_balance:
  assumes "handleTap rt tok clk body st = (st', Sent 200 (UserBody u))"
    and "get_prop body ''coins'' = JNum d"
    and "totalCoins (get_prop body ''userId'') st = Fin (of_int c)"
    and "0 \<le> c"
  shows "\<exists>c'. coins u = Fin (of_int c') \<and> c \<le> c' \<and> c' \<le> c + 50"
proof -
  from assms(1) obtain n where
    n: "ToNumber rt (get_prop body ''coins'') = Some n"
    and bal: "coins u = js_add (totalCoins (get_prop body ''userId'') st) (safeCoins n)"
    by (rule handleTap_accepted_balance)
  from assms(1) have "truthy (get_prop body ''coins'')" by (rule handleTap_accepted)
  with assms(2) have nan: "d \<noteq> NaN" by simp
  from n assms(2) have "n = d" by simp
  with bal assms(3) have e: "coins u = js_add (Fin (of_int c)) (safeCoins d)" by simp
  from nan obtain k :: int where k: "safeCoins d = Fin (of_int k)" "0 \<le> k" "k \<le> 50"
    by (cases d) (auto simp: safeCoins_cases)
  from e k have "coins u = Fin (of_int (c + k))" by simp
  with k show ?thesis by (intro exI[of _ "c + k"]) simp
qed

theorem numeric_sync_keeps_integer_balance_witness:
  "\<exists>c'. coins ((new_user (JStr ''u1'') 1700000000000)\<lparr>coins := Fin 50, totalTaps := Fin 50\<rparr>)
          = Fin (of_int c') \<and> 0 \<le> c' \<and> c' \<le> 0 + 50"
proof -
  let ?body = "JObj [(''userId'', JStr ''u1''), (''coins'', JNum (Fin 9999))]"
  let ?u = "(new_user (JStr ''u1'') 1700000000000)\<lparr>coins := Fin 50, totalTaps := Fin 50\<rparr>"
  have run: "handleTap stub_runtime [] (at_time 1700000000000) ?body initial
   = (\<lparr>users = [(JStr ''u1'', ?u)], rateLimits = [(JStr ''u1'', 1700000000000)]\<rparr>,
      Sent 200 (UserBody ?u))"
    by (simp add: run_defs)
  have c: "get_prop ?body ''coins'' = JNum (Fin 9999)" by simp
  have b: "totalCoins (get_prop ?body ''userId'') initial = Fin (of_int 0)"
    by (simp add: run_defs)
  from numeric_sync_keeps_integer_balance[OF run c b] show ?thesis by simp
qed

section \<open>The check of the signed payload\<close>

text \<open>
  C7. \<open>validateInitData\<close> returns true whenever no bot token is configured or the payload
  is missing (falsy). With a token and a payload, it returns false when the payload cannot
  be parsed (the constructor of \<^verbatim>\<open>URLSearchParams\<close> throws) and when the parsed payload has
  no \<^verbatim>\<open>hash\<close> entry. It is a total function into the booleans: nothing that happens after
  its first line raises to the caller.
\<close>

theorem validateInitData_policy:
  "(tok = [] \<or> \<not> truthy initData \<longrightarrow> validateInitData rt tok initData)
 \<and> (tok \<noteq> [] \<and> truthy initData \<and> URLSearchParams rt initData = None \<longrightarrow>
       \<not> validateInitData rt tok initData)
 \<and> (\<forall>params. tok \<noteq> [] \<and> truthy initData \<and> URLSearchParams rt initData = Some params
       \<and> params_get params ''hash'' = None \<longrightarrow> \<not> validateInitData rt tok initData)"
  by (auto simp: validateInitData_def Let_def)

text \<open>Without a token every payload passes, and so does a missing payload under the token
  \<^verbatim>\<open>secret\<close>; under that token the payload \<^verbatim>\<open>user=1\<close>, which has no \<^verbatim>\<open>hash\<close>, and the payload
  \<^verbatim>\<open>[1]\<close>, which is no sequence of pairs, are refused.\<close>

theorem validateInitData_policy_witness:
  "validateInitData stub_runtime [] (JStr ''user=1'')
   \<and> validateInitData stub_runtime ''secret'' JUndefined
   \<and> URLSearchParams stub_runtime (JStr ''user=1'') = Some [(''user'', ''1'')]
   \<and> \<not> validateInitData stub_runtime ''secret'' (JStr ''user=1'')
   \<and> URLSearchParams stub_runtime (JArr [JNum (Fin 1)]) = None
   \<and> \<not> validateInitData stub_runtime ''secret'' (JArr [JNum (Fin 1)])"
proof -
  have p: "URLSearchParams stub_runtime (JStr ''user=1'') = Some [(''user'', ''1'')]"
    by (simp add: parse_defs)
  have q: "URLSearchParams stub_runtime (JArr [JNum (Fin 1)]) = None" by simp
  have h: "params_get [(''user'', ''1'')] ''hash'' = None" by (simp add: params_get_def)
  from validateInitData_policy[of "[]" "JStr ''user=1''" stub_runtime]
  have a: "validateInitData stub_runtime [] (JStr ''user=1'')" by simp
  from validateInitData_policy[of "''secret''" JUndefined stub_runtime]
  have b: "validateInitData stub_runtime ''secret'' JUndefined" by simp
  from validateInitData_policy[of "''secret''" "JStr ''user=1''" stub_runtime] p h
  have c: "\<not> validateInitData stub_runtime ''secret'' (JStr ''user=1'')" by simp
  from validateInitData_policy[of "''secret''" "JArr [JNum (Fin 1)]" stub_runtime] q
  have d: "\<not> validateInitData stub_runtime ''secret'' (JArr [JNum (Fin 1)])" by simp
  from a b c d p q show ?thesis by blast
qed

section \<open>The leaderboard\<close>

text \<open>
  C8: in every state of the store, \<open>handleLeaderboard\<close> answers a sequence sorted descending
  by \<open>coins\<close>, of at most 100 entries, and leaves the store unchanged. The order fails in a
  state the server can reach. With no bot token configured, whatever the platform functions
  are: \<^verbatim>\<open>u1\<close> syncs 10 coins, \<^verbatim>\<open>u2\<close> sends \<^verbatim>\<open>{"userId":"u2","coins":{}}\<close> and \<^verbatim>\<open>u3\<close> syncs 20
  coins. The balance of \<^verbatim>\<open>u2\<close> is then \<^verbatim>\<open>NaN\<close>, every comparison with it gives \<^verbatim>\<open>NaN\<close>, which
  the sort reads as "equal", and \<open>handleLeaderboard\<close> answers the balances 10, \<^verbatim>\<open>NaN\<close>, 20 in
  this order.
\<close>

theorem leaderboard_with_NaN_unsorted:
  "snd (handleLeaderboard
     (fst (handleTap rt [] (at_time 1700000000000)
             (JObj [(''userId'', JStr ''u3''), (''coins'', JNum (Fin 20))])
     (fst (handleTap rt [] (at_time 1700000000000)
             (JObj [(''userId'', JStr ''u2''), (''coins'', JObj [])])
     (fst (handleTap rt [] (at_time 1700000000000)
             (JObj [(''userId'', JStr ''u1''), (''coins'', JNum (Fin 10))]) initial)))))))
   = Sent 200 (BoardBody
       [\<lparr>entry_userId = JStr ''u1'', entry_userName = JStr ''Player'', entry_coins = Fin 10,
          entry_level = 1\<rparr>,
        \<lparr>entry_userId = JStr ''u2'', entry_userName = JStr ''Player'', entry_coins = NaN,
          entry_level = 1\<rparr>,
        \<lparr>entry_userId = JStr ''u3'', entry_userName = JStr ''Player'', entry_coins = Fin 20,
          entry_level = 1\<rparr>])"
  by (simp add: run_defs board_defs)

text \<open>In that answer the first entry (10 coins) stands before the third (20 coins): the
  list is not in descending order.\<close>

theorem leaderboard_with_NaN_unsorted_order:
  "(case snd (handleLeaderboard
     (fst (handleTap stub_runtime [] (at_time 1700000000000)
             (JObj [(''userId'', JStr ''u3''), (''coins'', JNum (Fin 20))])
     (fst (handleTap stub_runtime [] (at_time 1700000000000)
             (JObj [(''userId'', JStr ''u2''), (''coins'', JObj [])])
     (fst (handleTap stub_runtime [] (at_time 1700000000000)
             (JObj [(''userId'', JStr ''u1''), (''coins'', JNum (Fin 10))]) initial))))))) of
      Sent code (BoardBody board) \<Rightarrow>
        \<not> js_ge (entry_coins (board ! 0)) (entry_coins (board ! 2))
        \<and> \<not> sorted_wrt (\<lambda>a b. js_ge (entry_coins a) (entry_coins b)) board
    | _ \<Rightarrow> False)"
  using leaderboard_with_NaN_unsorted[of stub_runtime] by simp

text \<open>
  What does hold. In every state \<open>handleLeaderboard\<close> answers at most 100 entries, each the
  projection of a record of the store, and returns the state as it was. When no record
  holds \<^verbatim>\<open>NaN\<close> as its balance, the entries are in descending order of \<open>coins\<close>.
\<close>

theorem leaderboard_sorted_for_numbers:
  "\<exists>board. handleLeaderboard st = (st, Sent 200 (BoardBody board))
           \<and> length board \<le> 100
           \<and> set board \<subseteq> board_entry ` snd ` set (users st)
           \<and> ((\<forall>(k, u) \<in> set (users st). coins u \<noteq> NaN) \<longrightarrow>
                 sorted_wrt (\<lambda>a b. js_ge (entry_coins a) (entry_coins b)) board)"
proof -
  let ?s = "js_sort (\<lambda>a b. js_sub (coins b) (coins a)) (map snd (users st))"
  let ?board = "map board_entry (take 100 ?s)"
  have a: "(\<forall>(k, u) \<in> set (users st). coins u \<noteq> NaN) \<longrightarrow>
             sorted_wrt (\<lambda>a b. js_ge (entry_coins a) (entry_coins b)) ?board"
  proof
    assume "\<forall>(k, u) \<in> set (users st). coins u \<noteq> NaN"
    then have "\<forall>y \<in> set (map snd (users st)). coins y \<noteq> NaN" by auto
    then have "sorted_wrt (\<lambda>a b. js_ge (coins a) (coins b)) ?s" by (rule js_sort_sorted)
    then have "sorted_wrt (\<lambda>a b. js_ge (coins a) (coins b)) (take 100 ?s)"
      by (rule sorted_wrt_take_list)
    then show "sorted_wrt (\<lambda>a b. js_ge (entry_coins a) (entry_coins b)) ?board"
      by (simp add: sorted_wrt_map board_entry_def)
  qed
  have b: "length ?board \<le> 100" by simp
  have "set (take 100 ?s) \<subseteq> snd ` set (users st)"
    using set_take_subset[of 100 ?s] by (simp add: js_sort_set)
  then have c: "set ?board \<subseteq> board_entry ` snd ` set (users st)" by auto
  have "handleLeaderboard st = (st, Sent 200 (BoardBody ?board))"
    by (simp add: handleLeaderboard_def)
  with a b c show ?thesis by blast
qed

text \<open>Two users with 10 and 20 coins: the leaderboard lists 20 before 10.\<close>

theorem leaderboard_sorted_for_numbers_witness:
  "\<exists>board. handleLeaderboard
      \<lparr>users = [(JStr ''u1'', (new_user (JStr ''u1'') 1700000000000)
                                 \<lparr>coins := Fin 10, totalTaps := Fin 10\<rparr>),
                (JStr ''u3'', (new_user (JStr ''u3'') 1700000000000)
                                 \<lparr>coins := Fin 20, totalTaps := Fin 20\<rparr>)],
        rateLimits = []\<rparr>
     = (\<lparr>users = [(JStr ''u1'', (new_user (JStr ''u1'') 1700000000000)
                                 \<lparr>coins := Fin 10, totalTaps := Fin 10\<rparr>),
                (JStr ''u3'', (new_user (JStr ''u3'') 1700000000000)
                                 \<lparr>coins := Fin 20, totalTaps := Fin 20\<rparr>)],
        rateLimits = []\<rparr>, Sent 200 (BoardBody board))
     \<and> map entry_coins board = [Fin 20, Fin 10]
     \<and> sorted_wrt (\<lambda>a b. js_ge (entry_coins a) (entry_coins b)) board"
proof -
  let ?st = "\<lparr>users = [(JStr ''u1'', (new_user (JStr ''u1'') 1700000000000)
                                 \<lparr>coins := Fin 10, totalTaps := Fin 10\<rparr>),
                (JStr ''u3'', (new_user (JStr ''u3'') 1700000000000)
                                 \<lparr>coins := Fin 20, totalTaps := Fin 20\<rparr>)],
        rateLimits = []\<rparr>"
  have n: "\<forall>(k, u) \<in> set (users ?st). coins u \<noteq> NaN" by simp
  from leaderboard_sorted_for_numbers[of ?st] n obtain board where
    b: "handleLeaderboard ?st = (?st, Sent 200 (BoardBody board))"
    and s: "sorted_wrt (\<lambda>a b. js_ge (entry_coins a) (entry_coins b)) board"
    by blast
  from b have m: "map entry_coins board = [Fin 20, Fin 10]"
    by (auto simp: board_defs new_user_def)
  show ?thesis by (rule exI[of _ board]) (intro conjI b m s)
qed

section \<open>When the rate limiter records an attempt\<close>

text \<open>
  C9, as the code has it. \<open>handleTap\<close> calls \<open>checkRateLimit\<close> only after the validation and
  the check of the payload, and \<open>checkRateLimit\<close> stores the time only when it admits the
  call. So every answer with an error body (400, 403 after a failed check of the payload,
  429) leaves the rate limiter as it was; the stored time of a user id (a primitive value)
  becomes the time of the attempt when the sync is accepted, and also when the call was
  admitted and the conversion of \<^verbatim>\<open>coins\<close> then throws.
\<close>

theorem rate_limit_advances_on_admission:
  assumes "handleTap rt tok clk body st = (st', out)"
    and "uid = get_prop body ''userId''"
  shows "(\<forall>code e. out = Sent code (ErrorBody e) \<longrightarrow> rateLimits st' = rateLimits st)
       \<and> (\<forall>u. out = Sent 200 (UserBody u) \<and> \<not> is_reference uid \<longrightarrow>
             map_get uid (rateLimits st') = Some (now_limit clk))
       \<and> (out = Thrown \<and> body \<noteq> JNull \<and> body \<noteq> JUndefined \<and> \<not> is_reference uid \<longrightarrow>
             map_get uid (rateLimits st') = Some (now_limit clk))"
proof (intro conjI allI impI)
  fix code e
  assume "out = Sent code (ErrorBody e)"
  with assms(1) show "rateLimits st' = rateLimits st"
    by (auto simp: handleTap_def checkRateLimit_def Let_def
             split: if_splits prod.splits bool.splits option.splits)
next
  fix u
  assume h: "out = Sent 200 (UserBody u) \<and> \<not> is_reference uid"
  with assms(1) have r: "handleTap rt tok clk body st = (st', Sent 200 (UserBody u))" by simp
  from r obtain
    c: "checkRateLimit (get_prop body ''userId'') (now_limit clk) (rateLimits st)
          = (True, rateLimits st')"
    by (rule handleTap_accepted)
  from checkRateLimit_admitted[OF c] h assms(2)
  show "map_get uid (rateLimits st') = Some (now_limit clk)" by simp
next
  assume h: "out = Thrown \<and> body \<noteq> JNull \<and> body \<noteq> JUndefined \<and> \<not> is_reference uid"
  with assms(1) have
    "checkRateLimit (get_prop body ''userId'') (now_limit clk) (rateLimits st)
       = (True, rateLimits st')"
    by (auto simp: handleTap_def Let_def
             split: if_splits prod.splits bool.splits option.splits)
  from checkRateLimit_admitted[OF this] h assms(2)
  show "map_get uid (rateLimits st') = Some (now_limit clk)" by simp
qed

text \<open>An accepted sync of \<^verbatim>\<open>u1\<close> stores its time; a request that is admitted and whose
  \<^verbatim>\<open>coins\<close> cannot be converted (an object with an own \<^verbatim>\<open>toString\<close>) stores it too.\<close>

theorem rate_limit_advances_on_admission_witness:
  "map_get (JStr ''u1'')
      (rateLimits (fst (handleTap stub_runtime [] (at_time 1700000000000)
         (JObj [(''userId'', JStr ''u1''), (''coins'', JNum (Fin 30))]) initial)))
     = Some 1700000000000
   \<and> snd (handleTap stub_runtime [] (at_time 1700000000000)
         (JObj [(''userId'', JStr ''u1''), (''coins'', JObj [(''toString'', JNull)])]) initial)
     = Thrown
   \<and> map_get (JStr ''u1'')
      (rateLimits (fst (handleTap stub_runtime [] (at_time 1700000000000)
         (JObj [(''userId'', JStr ''u1''), (''coins'', JObj [(''toString'', JNull)])]) initial)))
     = Some 1700000000000"
proof -
  let ?b1 = "JObj [(''userId'', JStr ''u1''), (''coins'', JNum (Fin 30))]"
  let ?b2 = "JObj [(''userId'', JStr ''u1''), (''coins'', JObj [(''toString'', JNull)])]"
  let ?r1 = "handleTap stub_runtime [] (at_time 1700000000000) ?b1 initial"
  let ?r2 = "handleTap stub_runtime [] (at_time 1700000000000) ?b2 initial"
  have o1: "\<exists>u. snd ?r1 = Sent 200 (UserBody u)" by (simp add: run_defs)
  have o2: "snd ?r2 = Thrown" by (simp add: run_defs)
  have t: "now_limit (at_time 1700000000000) = 1700000000000" by (simp add: at_time_def)
  have c1: "?r1 = (fst ?r1, snd ?r1)" and c2: "?r2 = (fst ?r2, snd ?r2)" by simp_all
  have i1: "JStr ''u1'' = get_prop ?b1 ''userId''" and i2: "JStr ''u1'' = get_prop ?b2 ''userId''"
    by simp_all
  from rate_limit_advances_on_admission[OF c1 i1] o1 t
  have a: "map_get (JStr ''u1'') (rateLimits (fst ?r1)) = Some 1700000000000" by auto
  from rate_limit_advances_on_admission[OF c2 i2] o2 t
  have b: "map_get (JStr ''u1'') (rateLimits (fst ?r2)) = Some 1700000000000" by auto
  from a o2 b show ?thesis by blast
qed

text \<open>C9 as the specification states it fails: with the bot token \<^verbatim>\<open>secret\<close>, a sync of
  \<^verbatim>\<open>u1\<close> whose payload \<^verbatim>\<open>user=1\<close> has no \<^verbatim>\<open>hash\<close> is answered 403, and the rate limiter holds
  no time for \<^verbatim>\<open>u1\<close> afterwards.\<close>

theorem auth_failure_keeps_rate_limit:
  "handleTap stub_runtime ''secret'' (at_time 1700000000000)
     (JObj [(''userId'', JStr ''u1''), (''coins'', JNum (Fin 5)), (''initData'', JStr ''user=1'')])
     initial
   = (\<lparr>users = [], rateLimits = []\<rparr>, Sent 403 (ErrorBody ''Invalid initData''))
   \<and> map_get (JStr ''u1'') (rateLimits (fst (handleTap stub_runtime ''secret'' (at_time 1700000000000)
     (JObj [(''userId'', JStr ''u1''), (''coins'', JNum (Fin 5)), (''initData'', JStr ''user=1'')])
     initial))) \<noteq> Some 1700000000000"
  by (simp add: run_defs parse_defs)

section \<open>The audit counter\<close>

text \<open>
  C10. In every state the server can reach, \<open>totalTaps\<close> and \<open>coins\<close> of every record are the
  same value: both start at 0 and every merge adds the same amount to each. (After the
  requests of C6 both are \<^verbatim>\<open>NaN\<close>.)
\<close>

theorem totalTaps_equals_coins:
  "reachable rt tok st \<Longrightarrow> \<forall>(k, u) \<in> set (users st). totalTaps u = coins u"
  by (rule reachable_invariant) (simp_all add: new_user_def merge_def Let_def)

text \<open>After \<^verbatim>\<open>GET /api/user/u1\<close> and an accepted sync of 30 coins by \<^verbatim>\<open>u1\<close>, the one record has
  30 in both fields.\<close>

theorem totalTaps_equals_coins_witness:
  "reachable stub_runtime []
     (fst (tap_route stub_runtime [] (at_time 1700000000000)
             (Some (JObj [(''userId'', JStr ''u1''), (''coins'', JNum (Fin 30))]))
             (fst (handleGetUser (JStr ''u1'') 1699999999000 initial))))
   \<and> map (\<lambda>(k, u). (totalTaps u, coins u))
       (users (fst (tap_route stub_runtime [] (at_time 1700000000000)
             (Some (JObj [(''userId'', JStr ''u1''), (''coins'', JNum (Fin 30))]))
             (fst (handleGetUser (JStr ''u1'') 1699999999000 initial)))))
     = [(Fin 30, Fin 30)]"
proof -
  let ?st = "fst (tap_route stub_runtime [] (at_time 1700000000000)
             (Some (JObj [(''userId'', JStr ''u1''), (''coins'', JNum (Fin 30))]))
             (fst (handleGetUser (JStr ''u1'') 1699999999000 initial)))"
  have r: "reachable stub_runtime [] ?st"
    by (rule reach_tap[OF reach_user[OF reach_initial]])
  have us: "map (\<lambda>(k, u). coins u) (users ?st) = [Fin 30]"
    by (simp add: tap_route_def handleGetUser_def run_defs)
  from totalTaps_equals_coins[OF r]
  have "map (\<lambda>(k, u). (totalTaps u, coins u)) (users ?st)
          = map (\<lambda>(k, u). (coins u, coins u)) (users ?st)"
    by (intro map_cong) auto
  also have "\<dots> = map (\<lambda>c. (c, c)) (map (\<lambda>(k, u). coins u) (users ?st))"
    by (simp add: case_prod_beta comp_def)
  finally show ?thesis using r us by simp
qed

end
